theory Spec2Isabelle
  imports Main "HOL-Library.AList" "HOL-Library.Sublist"
begin

section \<open>Shared data: Python exceptions and JSON values\<close>

text \<open>
  The exceptions of the two modules that a claim can observe. \<open>_get_path\<close> and
  \<open>_topological_sort\<close> both raise Python's \<open>ValueError\<close>; the two constructors keep
  the two raise sites apart. \<open>KeyError\<close> and \<open>TypeError\<close> are the implicit exceptions of
  subscripting a dict with a missing key and of applying an operation to a value of the wrong
  type.
\<close>

datatype exn =
    InvalidSessionId string
  | CycleDetected "string set"
  | KeyError string
  | TypeError

text \<open>
  A value as \<open>json.load\<close> returns it. Numbers are integers here (no claim reads a
  float); an object is the list of its items in insertion order.
\<close>

datatype json =
    JNull
  | JBool bool
  | JNum int
  | JStr string
  | JArr "json list"
  | JObj "(string \<times> json) list"

section \<open>session\_manager.py\<close>

subsection \<open>The storage directory\<close>

text \<open>
  What \<open>json.load\<close> makes of a file: either it raises (\<open>JSONDecodeError\<close>, or the
  \<open>UnicodeDecodeError\<close> of the decoding \<open>open\<close>, both subclasses of \<open>ValueError\<close>),
  or it returns a value. Writing a value with \<open>json.dump\<close> leaves a file that parses to
  that value again; the bytes in between are not modelled.

  The storage directory is the list of its files (name and content) in the order in which
  the directory enumerates them; file names are unique.
\<close>

datatype file_content = Unparsable | Parsed json

type_synonym storage = "(string \<times> file_content) list"

subsection \<open>\_get\_path\<close>

text \<open>
  \<open>str.isalnum\<close> on one character, for the code points 0 to 255 that \<open>char\<close> has:
  the ASCII digits and letters, and the Latin-1 letters and numeric characters that Python's
  Unicode tables classify as alphanumeric. Code points above 255 are not values of
  \<open>char\<close>.
\<close>

definition isalnum :: "char \<Rightarrow> bool" where
  "isalnum c =
     (let n = (of_char c :: nat) in
        (48 \<le> n \<and> n \<le> 57) \<or> (65 \<le> n \<and> n \<le> 90) \<or> (97 \<le> n \<and> n \<le> 122) \<or>
        n = 170 \<or> n = 178 \<or> n = 179 \<or> n = 181 \<or> n = 185 \<or> n = 186 \<or>
        (188 \<le> n \<and> n \<le> 190) \<or> (192 \<le> n \<and> n \<le> 214) \<or>
        (216 \<le> n \<and> n \<le> 246) \<or> (248 \<le> n \<and> n \<le> 255))"

text \<open>The test of \<open>_get_path\<close>: \<open>all(c.isalnum() or c in '-_' for c in session_id)\<close>.\<close>

definition valid_session_id :: "string \<Rightarrow> bool" where
  "valid_session_id session_id = list_all (\<lambda>c. isalnum c \<or> c \<in> set ''-_'') session_id"

text \<open>
  \<open>_get_path\<close> returns the file name inside the storage directory, or raises
  \<open>ValueError\<close>.
\<close>

definition get_path :: "string \<Rightarrow> exn + string" where
  "get_path session_id =
     (if \<not> valid_session_id session_id then Inl (InvalidSessionId session_id)
      else Inr (''session-'' @ session_id @ ''.json''))"

subsection \<open>load\_session and save\_session\<close>

text \<open>
  \<open>load_session\<close> runs \<open>_get_path\<close>, the existence test, \<open>open\<close> and
  \<open>json.load\<close> inside one \<open>try\<close> whose handler catches \<open>JSONDecodeError\<close>,
  \<open>IOError\<close> and \<open>ValueError\<close> and returns \<open>None\<close>. The result \<open>None\<close> of the
  model is Python's \<open>None\<close>; a file holding the JSON text \<open>null\<close> also loads as
  \<open>None\<close>.
\<close>

definition load_session :: "storage \<Rightarrow> string \<Rightarrow> json option" where
  "load_session st session_id =
     (case get_path session_id of
        Inl e \<Rightarrow> None
      | Inr path \<Rightarrow>
          (case map_of st path of
             None \<Rightarrow> None
           | Some Unparsable \<Rightarrow> None
           | Some (Parsed d) \<Rightarrow> (if d = JNull then None else Some d)))"

text \<open>
  \<open>save_session\<close> logs and re-raises what \<open>_get_path\<close> raises; otherwise it writes
  the document to the file, creating the file when it is new.
\<close>

definition save_session :: "storage \<Rightarrow> string \<Rightarrow> json \<Rightarrow> exn + storage" where
  "save_session st session_id data =
     (case get_path session_id of
        Inl e \<Rightarrow> Inl e
      | Inr path \<Rightarrow> Inr (AList.update path (Parsed data) st))"

subsection \<open>Python's dynamic operations on a loaded document\<close>

text \<open>Truth value of a loaded value, as \<open>if session_data\<close> tests it.\<close>

fun truthy :: "json \<Rightarrow> bool" where
  "truthy JNull = False"
| "truthy (JBool b) = b"
| "truthy (JNum n) = (n \<noteq> 0)"
| "truthy (JStr s) = (s \<noteq> [])"
| "truthy (JArr xs) = (xs \<noteq> [])"
| "truthy (JObj kvs) = (kvs \<noteq> [])"

text \<open>
  \<open>key in value\<close>: key membership for a dict, element membership for a list, substring
  for a string, and \<open>TypeError\<close> for the values that are not containers.
\<close>

fun py_in :: "string \<Rightarrow> json \<Rightarrow> exn + bool" where
  "py_in key (JObj kvs) = Inr (key \<in> fst ` set kvs)"
| "py_in key (JArr xs) = Inr (JStr key \<in> set xs)"
| "py_in key (JStr s) = Inr (sublist key s)"
| "py_in key JNull = Inl TypeError"
| "py_in key (JBool b) = Inl TypeError"
| "py_in key (JNum n) = Inl TypeError"

text \<open>
  \<open>value[key]\<close> with a string key: the item of a dict (\<open>KeyError\<close> when absent), and
  \<open>TypeError\<close> for every other value.
\<close>

fun py_getitem :: "json \<Rightarrow> string \<Rightarrow> exn + json" where
  "py_getitem (JObj kvs) key =
     (case map_of kvs key of None \<Rightarrow> Inl (KeyError key) | Some v \<Rightarrow> Inr v)"
| "py_getitem v key = Inl TypeError"

text \<open>\<open>dict.get(key)\<close> on a document, for reading the fields of a session.\<close>

fun field :: "string \<Rightarrow> json \<Rightarrow> json option" where
  "field key (JObj kvs) = map_of kvs key"
| "field key v = None"

subsection \<open>\_cleanup\_old\_sessions\<close>

text \<open>
  Time is counted in microseconds, the resolution of \<open>datetime\<close>. A parsed timestamp is
  naive (no offset) or aware (an instant on the UTC time line).
  \<open>datetime.fromisoformat\<close> is a function of the standard library and a parameter of
  the model: it returns \<open>None\<close> where Python raises \<open>ValueError\<close>.
\<close>

datatype iso_datetime = Naive int | Aware int

type_synonym iso_parser = "string \<Rightarrow> iso_datetime option"

definition expiration_duration :: int where
  "expiration_duration = 24 * 3600 * 1000000"

text \<open>The files \<open>glob("session-*.json")\<close> selects.\<close>

definition is_session_file :: "string \<Rightarrow> bool" where
  "is_session_file name =
     (prefix ''session-'' name \<and> suffix ''.json'' name \<and> 13 \<le> length name)"

text \<open>
  The body of the inner \<open>try\<close> for one file, up to the decision. \<open>Inr Unlink\<close> covers
  the explicit \<open>unlink\<close> calls and the handler of \<open>JSONDecodeError\<close>, \<open>IOError\<close>
  and \<open>ValueError\<close>, which unlinks too. \<open>Inl\<close> is an exception that this handler does
  not catch: the \<open>TypeError\<close> of \<open>in\<close> or of a subscript on a value that does not
  support it, of \<open>fromisoformat\<close> on a value that is not a string, and of subtracting a
  naive timestamp from the aware \<open>now\<close>.
\<close>

datatype verdict = Unlink | Keep

definition check_session_file :: "iso_parser \<Rightarrow> int \<Rightarrow> file_content \<Rightarrow> exn + verdict" where
  "check_session_file fromisoformat now content =
     (case content of
        Unparsable \<Rightarrow> Inr Unlink
      | Parsed session_data \<Rightarrow>
          if \<not> truthy session_data then Inr Unlink
          else
            (case py_in ''created_at'' session_data of
               Inl e \<Rightarrow> Inl e
             | Inr False \<Rightarrow> Inr Unlink
             | Inr True \<Rightarrow>
                 (case py_getitem session_data ''created_at'' of
                    Inl e \<Rightarrow> Inl e
                  | Inr (JStr s) \<Rightarrow>
                      (case fromisoformat s of
                         None \<Rightarrow> Inr Unlink
                       | Some (Naive t) \<Rightarrow> Inl TypeError
                       | Some (Aware created_at) \<Rightarrow>
                           if now - created_at > expiration_duration then Inr Unlink
                           else Inr Keep)
                  | Inr v \<Rightarrow> Inl TypeError)))"

text \<open>
  The loop over the selected files. An exception that leaves the inner \<open>try\<close> ends the
  loop: the outer handler catches and logs it, and the files not yet visited stay as they
  are. A file that is gone when it is opened makes the handler's own \<open>unlink\<close> raise,
  with the same effect.
\<close>

fun sweep :: "iso_parser \<Rightarrow> int \<Rightarrow> string list \<Rightarrow> storage \<Rightarrow> storage" where
  "sweep fromisoformat now [] st = st"
| "sweep fromisoformat now (session_file # files) st =
     (case map_of st session_file of
        None \<Rightarrow> st
      | Some content \<Rightarrow>
          (case check_session_file fromisoformat now content of
             Inl e \<Rightarrow> st
           | Inr Unlink \<Rightarrow> sweep fromisoformat now files (AList.delete session_file st)
           | Inr Keep \<Rightarrow> sweep fromisoformat now files st))"

definition cleanup_old_sessions :: "iso_parser \<Rightarrow> int \<Rightarrow> storage \<Rightarrow> storage" where
  "cleanup_old_sessions fromisoformat now st =
     sweep fromisoformat now (filter is_session_file (map fst st)) st"

subsection \<open>create\_session\<close>

text \<open>
  The two readings of the clock (one in the sweep, one for \<open>created_at\<close>), the string of
  the fresh \<open>uuid4\<close> and \<open>datetime.isoformat\<close> are inputs of the model. The result
  pairs what the call returns or raises with the storage it leaves.
\<close>

definition system_entry :: "string \<Rightarrow> json" where
  "system_entry initial_context =
     JObj [(''role'', JStr ''system''),
           (''content'', JStr (''Session initiated with context: '' @ initial_context))]"

definition create_session ::
  "iso_parser \<Rightarrow> (int \<Rightarrow> string) \<Rightarrow> int \<Rightarrow> string \<Rightarrow> int \<Rightarrow> storage \<Rightarrow> string option
     \<Rightarrow> (exn + json) \<times> storage" where
  "create_session fromisoformat isoformat sweep_now session_id now st initial_context =
     (let st1 = cleanup_old_sessions fromisoformat sweep_now st;
          history =
            (case initial_context of
               None \<Rightarrow> []
             | Some c \<Rightarrow> if c \<noteq> [] then [system_entry c] else []);
          session_data =
            JObj [(''session_id'', JStr session_id),
                  (''status'', JStr ''active''),
                  (''created_at'', JStr (isoformat now)),
                  (''initial_args'',
                     JObj [(''initial_context'',
                            (case initial_context of None \<Rightarrow> JNull | Some c \<Rightarrow> JStr c))]),
                  (''history'', JArr history),
                  (''artifacts'', JObj [])]
      in case save_session st1 session_id session_data of
           Inl e \<Rightarrow> (Inl e, st1)
         | Inr st2 \<Rightarrow> (Inr session_data, st2))"

text \<open>
  The shape of \<open>str(uuid.uuid4())\<close>: 36 characters, hyphens at positions 8, 13, 18 and
  23, lower-case hexadecimal digits elsewhere.
\<close>

definition uuid_str :: "string \<Rightarrow> bool" where
  "uuid_str s =
     (length s = 36 \<and>
      list_all (\<lambda>(i, c). if i \<in> {8, 13, 18, 23} then c = CHR ''-''
                         else c \<in> set ''0123456789abcdef'')
        (zip [0 ..< 36] s))"

section \<open>Session identifiers\<close>

lemma valid_session_id_iff:
  "valid_session_id sid \<longleftrightarrow> (\<forall>c \<in> set sid. isalnum c \<or> c = CHR ''-'' \<or> c = CHR ''_'')"
  by (auto simp: valid_session_id_def list_all_iff)

text \<open>
  C10. The character test accepts the empty identifier: \<open>_get_path('')\<close> raises nothing and
  returns the fixed file name \<open>session-.json\<close>; \<open>save_session('', doc)\<close> stores the
  document under that name; and \<open>load_session('')\<close> returns \<open>None\<close> in every storage
  directory that has no file of that name.
\<close>

theorem empty_session_id_accepted:
  "valid_session_id '''' \<and>
   get_path '''' = Inr ''session-.json'' \<and>
   save_session st '''' doc = Inr (AList.update ''session-.json'' (Parsed doc) st) \<and>
   (map_of st ''session-.json'' = None \<longrightarrow> load_session st '''' = None)"
  by (simp add: valid_session_id_def get_path_def save_session_def load_session_def)

theorem empty_session_id_accepted_witness:
  "map_of ([] :: storage) ''session-.json'' = None \<and>
   load_session [] '''' = None \<and>
   save_session [] '''' (JObj []) = Inr [(''session-.json'', Parsed (JObj []))]"
  using empty_session_id_accepted [of "[]" "JObj []"] by simp

text \<open>
  C3 as stated fails: for the identifier \<open>a/b\<close>, whose slash is outside the accepted set,
  \<open>_get_path\<close> raises, but \<open>load_session\<close> catches the exception and returns
  \<open>None\<close>, the result it also gives for an absent file.
\<close>

theorem load_invalid_id_counterexample:
  "\<not> valid_session_id ''a/b'' \<and>
   get_path ''a/b'' = Inl (InvalidSessionId ''a/b'') \<and>
   load_session [] ''a/b'' = None \<and>
   load_session [] ''absent'' = None"
  by (simp add: valid_session_id_def isalnum_def get_path_def load_session_def)

text \<open>
  C3, amended. For every identifier with a character outside the alphanumerics, hyphen and
  underscore, \<open>_get_path\<close> fails with the invalid-identifier error and \<open>save_session\<close>
  propagates it without touching the storage, while \<open>load_session\<close> returns \<open>None\<close>
  whatever the storage holds.
\<close>

theorem invalid_id_load_none_save_raises:
  assumes "c \<in> set sid" and "\<not> isalnum c" and "c \<noteq> CHR ''-''" and "c \<noteq> CHR ''_''"
  shows "get_path sid = Inl (InvalidSessionId sid) \<and>
         save_session st sid doc = Inl (InvalidSessionId sid) \<and>
         load_session st sid = None"
proof -
  from assms have "\<not> valid_session_id sid"
    unfolding valid_session_id_iff by blast
  then show ?thesis
    by (simp add: get_path_def save_session_def load_session_def)
qed

theorem invalid_id_load_none_save_raises_witness:
  "CHR ''/'' \<in> set ''a/b'' \<and> \<not> isalnum CHR ''/'' \<and>
   save_session [(''session-x.json'', Unparsable)] ''a/b'' JNull = Inl (InvalidSessionId ''a/b'') \<and>
   load_session [(''session-x.json'', Unparsable)] ''a/b'' = None"
proof -
  have h: "CHR ''/'' \<in> set ''a/b''" "\<not> isalnum CHR ''/''"
    "CHR ''/'' \<noteq> CHR ''-''" "CHR ''/'' \<noteq> CHR ''_''"
    by (simp_all add: isalnum_def)
  show ?thesis
    using h invalid_id_load_none_save_raises [OF h, of "[(''session-x.json'', Unparsable)]" JNull]
    by simp
qed

section \<open>Creating and reloading a session\<close>

lemma uuid_str_valid: "uuid_str s \<Longrightarrow> valid_session_id s"
proof -
  assume u: "uuid_str s"
  define Q where "Q = (\<lambda>(i::nat, c). if i \<in> {8, 13, 18, 23} then c = CHR ''-''
                         else c \<in> set ''0123456789abcdef'')"
  from u have len: "length s = 36" and la: "list_all Q (zip [0 ..< 36] s)"
    unfolding uuid_str_def Q_def by blast+
  have "c = CHR ''-'' \<or> c \<in> set ''0123456789abcdef''" if "c \<in> set s" for c
  proof -
    from that obtain i where i: "i < length s" "s ! i = c" by (auto simp: in_set_conv_nth)
    have "(i, c) \<in> set (zip [0 ..< 36] s)"
      unfolding in_set_zip
    proof (intro exI[of _ i] conjI)
      show "[0 ..< 36] ! i = fst (i, c)" using i len by simp
      show "s ! i = snd (i, c)" using i by simp
      show "i < length [0 ..< 36]" using i len by simp
      show "i < length s" by (rule i)
    qed
    with la have "Q (i, c)" unfolding list_all_iff by blast
    then show ?thesis unfolding Q_def by (simp only: prod.case split: if_splits) blast+
  qed
  moreover have "isalnum c" if "c \<in> set ''0123456789abcdef''" for c
    using that by (auto simp: isalnum_def)
  ultimately show ?thesis
    unfolding valid_session_id_iff by blast
qed

lemma load_after_save:
  assumes "save_session st sid doc = Inr st'" and "doc \<noteq> JNull"
  shows "load_session st' sid = Some doc"
  using assms
  by (auto simp: save_session_def load_session_def update_conv' split: sum.splits)

text \<open>
  C8 as stated fails for an initial context that is given but empty: \<open>if initial_context\<close>
  is false for the empty string, so the history of the new document is empty although a
  context was passed (and is recorded under \<open>initial_args\<close>).
\<close>

theorem create_empty_context_counterexample:
  "field ''history''
     (projr (fst (create_session (\<lambda>s. None) (\<lambda>t. ''2026-01-01T00:00:00+00:00'') 1767225600000000
        ''123e4567-e89b-42d3-a456-426614174000'' 1767225600000000 [] (Some ''''))))
   = Some (JArr [])"
  by (simp add: create_session_def save_session_def get_path_def valid_session_id_def
        isalnum_def cleanup_old_sessions_def Let_def)

text \<open>
  C8, amended. For every optional initial context, \<open>create_session\<close> with a fresh
  \<open>uuid4\<close> identifier returns a document that \<open>load_session\<close> returns again for the
  document's identifier: its status is \<open>active\<close>, its \<open>created_at\<close> parses back to the
  UTC instant of creation (given that \<open>fromisoformat\<close> inverts \<open>isoformat\<close> there),
  its history is empty when no context or the empty string was given, and holds exactly the
  one system entry when a non-empty context was given.
\<close>

theorem create_then_load:
  assumes "uuid_str session_id"
    and "fromisoformat (isoformat now) = Some (Aware now)"
  shows "\<exists>doc st'.
           create_session fromisoformat isoformat sweep_now session_id now st initial_context
             = (Inr doc, st') \<and>
           load_session st' session_id = Some doc \<and>
           field ''session_id'' doc = Some (JStr session_id) \<and>
           field ''status'' doc = Some (JStr ''active'') \<and>
           (\<exists>ts. field ''created_at'' doc = Some (JStr ts) \<and> fromisoformat ts = Some (Aware now)) \<and>
           field ''history'' doc =
             Some (JArr (case initial_context of
                           None \<Rightarrow> []
                         | Some c \<Rightarrow> if c = [] then [] else [system_entry c]))"
proof -
  let ?st1 = "cleanup_old_sessions fromisoformat sweep_now st"
  from assms(1) have "valid_session_id session_id" by (rule uuid_str_valid)
  then have p: "get_path session_id = Inr (''session-'' @ session_id @ ''.json'')"
    by (simp add: get_path_def)
  obtain doc where doc: "fst (create_session fromisoformat isoformat sweep_now session_id now st
      initial_context) = Inr doc"
    and st': "save_session ?st1 session_id doc =
       Inr (snd (create_session fromisoformat isoformat sweep_now session_id now st initial_context))"
    and f: "field ''session_id'' doc = Some (JStr session_id)"
      "field ''status'' doc = Some (JStr ''active'')"
      "field ''created_at'' doc = Some (JStr (isoformat now))"
      "field ''history'' doc =
             Some (JArr (case initial_context of
                           None \<Rightarrow> []
                         | Some c \<Rightarrow> if c = [] then [] else [system_entry c]))"
    and nn: "doc \<noteq> JNull"
    using p by (cases initial_context) (simp_all add: create_session_def save_session_def Let_def)
  from st' nn have "load_session
      (snd (create_session fromisoformat isoformat sweep_now session_id now st initial_context))
      session_id = Some doc"
    by (rule load_after_save)
  with doc f assms(2) show ?thesis
    by (intro exI[of _ doc]
          exI[of _ "snd (create_session fromisoformat isoformat sweep_now session_id now st
             initial_context)"]) (simp add: prod_eq_iff)
qed

theorem create_then_load_witness:
  "uuid_str ''123e4567-e89b-42d3-a456-426614174000'' \<and>
   (\<exists>doc st'.
      create_session
        (\<lambda>s. if s = ''2026-01-01T00:00:00+00:00'' then Some (Aware 1767225600000000) else None)
        (\<lambda>t. ''2026-01-01T00:00:00+00:00'') 1767225600000000
        ''123e4567-e89b-42d3-a456-426614174000'' 1767225600000000 [] (Some ''hello'')
        = (Inr doc, st') \<and>
      load_session st' ''123e4567-e89b-42d3-a456-426614174000'' = Some doc \<and>
      field ''history'' doc = Some (JArr [system_entry ''hello'']))"
proof -
  let ?p = "\<lambda>s. if s = ''2026-01-01T00:00:00+00:00'' then Some (Aware 1767225600000000) else None"
  let ?f = "\<lambda>t::int. ''2026-01-01T00:00:00+00:00''"
  have u: "uuid_str ''123e4567-e89b-42d3-a456-426614174000''"
    by (simp add: uuid_str_def upt_rec)
  have r: "?p (?f 1767225600000000) = Some (Aware 1767225600000000)"
    by simp
  from create_then_load [where fromisoformat = ?p and isoformat = ?f, OF u r,
      of 1767225600000000 "[]" "Some ''hello''"]
  show ?thesis using u by auto
qed

section \<open>The expiry sweep\<close>

text \<open>
  As long as no file makes the loop stop early, the sweep removes exactly the session files
  for which the body decides \<open>Unlink\<close>, and leaves every other file as it is.
\<close>

lemma sweep_exact:
  assumes "distinct (map fst st)" and "distinct files" and "set files \<subseteq> fst ` set st"
    and "\<And>n c. n \<in> set files \<Longrightarrow> (n, c) \<in> set st \<Longrightarrow>
           \<exists>v. check_session_file p now c = Inr v"
  shows "sweep p now files st =
         filter (\<lambda>(n, c). \<not> (n \<in> set files \<and> check_session_file p now c = Inr Unlink)) st"
  using assms
proof (induction files arbitrary: st)
  case Nil
  then show ?case by simp
next
  case (Cons f fs)
  from Cons.prems(3) obtain c where c: "(f, c) \<in> set st" by auto
  with Cons.prems(1) have look: "map_of st f = Some c" by simp
  from Cons.prems(4)[of f c] c obtain v where v: "check_session_file p now c = Inr v" by auto
  have only: "c' = c" if "(f, c') \<in> set st" for c'
    using that c Cons.prems(1) by (meson eq_key_imp_eq_value)
  show ?case
  proof (cases v)
    case Keep
    have "sweep p now fs st =
          filter (\<lambda>(n, c). \<not> (n \<in> set fs \<and> check_session_file p now c = Inr Unlink)) st"
      using Cons.prems by (intro Cons.IH) auto
    also have "\<dots> = filter (\<lambda>(n, c). \<not> (n \<in> set (f # fs) \<and> check_session_file p now c = Inr Unlink)) st"
      using only v Keep by (intro filter_cong) auto
    finally show ?thesis using look v Keep by simp
  next
    case Unlink
    let ?st = "AList.delete f st"
    have d: "distinct (map fst ?st)" using Cons.prems(1) by (simp add: distinct_delete)
    have s: "set fs \<subseteq> fst ` set ?st"
      using Cons.prems(2,3) by (force simp: AList.delete_eq)
    have "sweep p now fs ?st =
          filter (\<lambda>(n, c). \<not> (n \<in> set fs \<and> check_session_file p now c = Inr Unlink)) ?st"
      using d s Cons.prems(2,4) by (intro Cons.IH) (auto simp: AList.delete_eq)
    also have "\<dots> = filter (\<lambda>(n, c). \<not> (n \<in> set (f # fs) \<and> check_session_file p now c = Inr Unlink)) st"
      unfolding AList.delete_eq filter_filter
      using only v Unlink by (intro filter_cong) auto
    finally show ?thesis using look v Unlink by simp
  qed
qed

lemma cleanup_exact:
  assumes "distinct (map fst st)"
    and "\<And>n c. is_session_file n \<Longrightarrow> (n, c) \<in> set st \<Longrightarrow>
           \<exists>v. check_session_file p now c = Inr v"
  shows "cleanup_old_sessions p now st =
         filter (\<lambda>(n, c). \<not> (is_session_file n \<and> check_session_file p now c = Inr Unlink)) st"
proof -
  have "cleanup_old_sessions p now st =
        filter (\<lambda>(n, c). \<not> (n \<in> set (filter is_session_file (map fst st)) \<and>
                            check_session_file p now c = Inr Unlink)) st"
    unfolding cleanup_old_sessions_def
    using assms by (intro sweep_exact) (auto simp: distinct_map_filter)
  also have "\<dots> = filter (\<lambda>(n, c). \<not> (is_session_file n \<and> check_session_file p now c = Inr Unlink)) st"
    by (intro filter_cong) force+
  finally show ?thesis .
qed

text \<open>
  C9. The docstring of \<open>_cleanup_old_sessions\<close> promises that files older than 24 hours
  and damaged files are removed. A stored document whose \<open>created_at\<close> is the number 5
  makes \<open>fromisoformat\<close> raise \<open>TypeError\<close>, which the inner handler does not list:
  the loop ends in the outer handler. The damaged file \<open>session-a.json\<close> stays, and so
  does \<open>session-b.json\<close>, created 48 hours before the sweep, which the body would
  unlink.
\<close>

theorem sweep_type_error_aborts:
  "check_session_file
     (\<lambda>s. if s = ''2026-01-01T00:00:00+00:00'' then Some (Aware 1767225600000000) else None)
     1767398400000000
     (Parsed (JObj [(''created_at'', JStr ''2026-01-01T00:00:00+00:00'')])) = Inr Unlink \<and>
   cleanup_old_sessions
     (\<lambda>s. if s = ''2026-01-01T00:00:00+00:00'' then Some (Aware 1767225600000000) else None)
     1767398400000000
     [(''session-a.json'', Parsed (JObj [(''created_at'', JNum 5)])),
      (''session-b.json'', Parsed (JObj [(''created_at'', JStr ''2026-01-01T00:00:00+00:00'')]))]
   = [(''session-a.json'', Parsed (JObj [(''created_at'', JNum 5)])),
      (''session-b.json'', Parsed (JObj [(''created_at'', JStr ''2026-01-01T00:00:00+00:00'')]))]"
  by (simp add: cleanup_old_sessions_def check_session_file_def is_session_file_def
        suffix_def expiration_duration_def)

section \<open>app\_context.py\<close>

subsection \<open>Configuration records\<close>

text \<open>
  A Python dict is the list of its items in insertion order, with unique keys: assigning to
  a present key replaces the value in place, assigning to a new key appends
  (\<open>AList.update\<close>), and a lookup is \<open>map_of\<close>.

  A team definition and an agent definition are JSON objects read with \<open>get\<close> and with
  subscripts; each field that the code reads is an optional field of the record
  (\<open>None\<close> when the key is absent).
\<close>

record team_config =
  team_name :: "string option"
  description :: "string option"
  members :: "string list option"
  instructions :: "string option"
  success_criteria :: "string option"

record agent_config =
  agent_name :: "string option"
  agent_role :: "string option"
  agent_description :: "string option"
  agent_tools :: "string list option"
  agent_instructions :: "string option"

type_synonym team_configs = "(string \<times> team_config) list"

text \<open>\<open>config.get("members", [])\<close>.\<close>

definition members_of :: "team_config \<Rightarrow> string list" where
  "members_of config = (case members config of None \<Rightarrow> [] | Some ms \<Rightarrow> ms)"

subsection \<open>\_topological\_sort\<close>

text \<open>
  \<open>dependencies\<close> is the set \<open>{member for member in config.get("members", []) if
  member in team_configs}\<close>, listed without repetition. The loop over it appends
  \<open>team_key\<close> once to the adjacency list of every element, so the order in which Python
  enumerates the set does not show in \<open>adj\<close>.
\<close>

definition dependencies :: "team_configs \<Rightarrow> team_config \<Rightarrow> string list" where
  "dependencies team_configs config =
     remdups (filter (\<lambda>member. member \<in> fst ` set team_configs) (members_of config))"

text \<open>\<open>for dep_key in dependencies: adj[dep_key].append(team_key)\<close>\<close>

fun add_edges ::
  "(string \<times> string list) list \<Rightarrow> string \<Rightarrow> string list \<Rightarrow> exn + (string \<times> string list) list"
where
  "add_edges adj team_key [] = Inr adj"
| "add_edges adj team_key (dep_key # deps) =
     (case map_of adj dep_key of
        None \<Rightarrow> Inl (KeyError dep_key)
      | Some ks \<Rightarrow> add_edges (AList.update dep_key (ks @ [team_key]) adj) team_key deps)"

text \<open>The loop over \<open>team_configs.items()\<close> that fills \<open>in_degree\<close> and \<open>adj\<close>.\<close>

fun build_graph ::
  "team_configs \<Rightarrow> team_configs \<Rightarrow> (string \<times> string list) list \<Rightarrow> (string \<times> int) list
     \<Rightarrow> exn + ((string \<times> string list) list \<times> (string \<times> int) list)"
where
  "build_graph team_configs [] adj in_degree = Inr (adj, in_degree)"
| "build_graph team_configs ((team_key, config) # items) adj in_degree =
     (let deps = dependencies team_configs config;
          in_degree' = AList.update team_key (int (length deps)) in_degree
      in case add_edges adj team_key deps of
           Inl e \<Rightarrow> Inl e
         | Inr adj' \<Rightarrow> build_graph team_configs items adj' in_degree')"

text \<open>
  The inner loop of the \<open>while\<close>: \<open>for dependent_team_key in adj[current_team_key]\<close>,
  decrementing and enqueuing at zero.
\<close>

fun relax ::
  "(string \<times> int) list \<Rightarrow> string list \<Rightarrow> string list \<Rightarrow> exn + ((string \<times> int) list \<times> string list)"
where
  "relax in_degree queue [] = Inr (in_degree, queue)"
| "relax in_degree queue (dependent_team_key # ds) =
     (case map_of in_degree dependent_team_key of
        None \<Rightarrow> Inl (KeyError dependent_team_key)
      | Some n \<Rightarrow>
          relax (AList.update dependent_team_key (n - 1) in_degree)
            (if n - 1 = 0 then queue @ [dependent_team_key] else queue) ds)"

text \<open>The sum that decreases with every turn of the \<open>while\<close> loop.\<close>

definition pending :: "(string \<times> int) list \<Rightarrow> nat" where
  "pending in_degree = sum_list (map (\<lambda>(k, n). nat n) in_degree)"

lemma pending_update:
  assumes "map_of in_degree k = Some n"
  shows "pending (AList.update k (n - 1) in_degree) + (if n - 1 = 0 then 1 else 0)
           \<le> pending in_degree"
  using assms
proof (induction in_degree)
  case Nil
  then show ?case by simp
next
  case (Cons p ps)
  then show ?case
    by (cases p) (auto simp: pending_def)
qed

lemma relax_pending:
  "relax in_degree queue ds = Inr (in_degree', queue') \<Longrightarrow>
   length queue' + pending in_degree' \<le> length queue + pending in_degree"
proof (induction ds arbitrary: in_degree queue)
  case Nil
  then show ?case by simp
next
  case (Cons d ds)
  from Cons.prems obtain n where n: "map_of in_degree d = Some n"
    and r: "relax (AList.update d (n - 1) in_degree)
              (if n - 1 = 0 then queue @ [d] else queue) ds = Inr (in_degree', queue')"
    by (auto split: option.splits)
  from Cons.IH [OF r] pending_update [OF n] show ?case
    by (auto split: if_splits)
qed

text \<open>
  The \<open>while queue\<close> loop: pop the head, append it to \<open>sorted_list\<close>, relax its
  dependents.
\<close>

function kahn_loop ::
  "(string \<times> string list) list \<Rightarrow> (string \<times> int) list \<Rightarrow> string list \<Rightarrow> string list
     \<Rightarrow> exn + ((string \<times> int) list \<times> string list)"
where
  "kahn_loop adj in_degree [] sorted_list = Inr (in_degree, sorted_list)"
| "kahn_loop adj in_degree (current_team_key # queue) sorted_list =
     (case map_of adj current_team_key of
        None \<Rightarrow> Inl (KeyError current_team_key)
      | Some ds \<Rightarrow>
          (case relax in_degree queue ds of
             Inl e \<Rightarrow> Inl e
           | Inr (in_degree', queue') \<Rightarrow>
               kahn_loop adj in_degree' queue' (sorted_list @ [current_team_key])))"
  by pat_completeness auto
termination
proof (relation "measure (\<lambda>(adj, in_degree, queue, sorted_list). length queue + pending in_degree)")
  show "wf (measure (\<lambda>(adj, in_degree, queue, sorted_list). length queue + pending in_degree))"
    by simp
next
  fix adj :: "(string \<times> string list) list" and in_degree current_team_key queue
    and sorted_list :: "string list" and ds x in_degree' queue'
  assume "relax in_degree queue ds = Inr x" and "(in_degree', queue') = x"
  then have "relax in_degree queue ds = Inr (in_degree', queue')" by simp
  from relax_pending [OF this]
  show "((adj, in_degree', queue', sorted_list @ [current_team_key]),
         (adj, in_degree, current_team_key # queue, sorted_list))
        \<in> measure (\<lambda>(adj, in_degree, queue, sorted_list). length queue + pending in_degree)"
    by simp
qed

text \<open>
  The whole function: the two dict comprehensions, the edge loop, the initial queue of the
  keys of in-degree zero in the order of \<open>in_degree.items()\<close>, the \<open>while\<close> loop, and the
  length test that either returns the order or raises \<open>ValueError\<close> with the set of keys
  whose in-degree is still positive.
\<close>

definition topological_sort :: "team_configs \<Rightarrow> exn + string list" where
  "topological_sort team_configs =
     (let adj0 = map (\<lambda>(key, config). (key, [])) team_configs;
          in_degree0 = map (\<lambda>(key, config). (key, 0)) team_configs
      in case build_graph team_configs team_configs adj0 in_degree0 of
           Inl e \<Rightarrow> Inl e
         | Inr (adj, in_degree) \<Rightarrow>
             (let queue = map fst (filter (\<lambda>(key, degree). degree = 0) in_degree)
              in case kahn_loop adj in_degree queue [] of
                   Inl e \<Rightarrow> Inl e
                 | Inr (in_degree', sorted_list) \<Rightarrow>
                     if length sorted_list = length team_configs then Inr sorted_list
                     else Inl (CycleDetected
                            (set (map fst (filter (\<lambda>(key, degree). degree > 0) in_degree'))))))"

end
